theory Spec2Isabelle
  imports Main "HOL-Library.Word" "HOL-Library.Sublist"
begin

section \<open>JavaScript strings\<close>

text \<open>
  A JavaScript string is a sequence of 16-bit code units. \<open>js\<close> turns an ASCII literal
  of the source into that representation; \<open>LF\<close> is the code unit written \<open>\n\<close> in the
  source.
\<close>

type_synonym jsstring = "16 word list"

definition js :: "string \<Rightarrow> jsstring" where
  "js s = map of_char s"

definition LF :: "16 word" where
  "LF = 0x0A"

text \<open>\<open>String.prototype.startsWith(p)\<close> with the default position 0.\<close>

definition startsWith :: "jsstring \<Rightarrow> jsstring \<Rightarrow> bool" where
  "startsWith s p = (take (length p) s = p)"

text \<open>
  \<open>String.prototype.slice(b, e)\<close>: a negative index counts from the end, both indices
  are clamped to the string.
\<close>

definition slice :: "int \<Rightarrow> int \<Rightarrow> jsstring \<Rightarrow> jsstring" where
  "slice b e s =
     (let len = int (length s);
          from = (if b < 0 then max (len + b) 0 else min b len);
          to = (if e < 0 then max (len + e) 0 else min e len)
      in take (nat (to - from)) (drop (nat from) s))"

text \<open>\<open>Array.prototype.join(sep)\<close> on an array of strings.\<close>

fun join :: "jsstring \<Rightarrow> jsstring list \<Rightarrow> jsstring" where
  "join sep [] = []"
| "join sep [x] = x"
| "join sep (x # y # ys) = x @ sep @ join sep (y # ys)"

text \<open>
  \<open>String.prototype.trim()\<close> strips the WhiteSpace and LineTerminator code points of
  ECMAScript from both ends.
\<close>

definition is_whitespace :: "16 word \<Rightarrow> bool" where
  "is_whitespace c =
     (c = 0x09 \<or> c = 0x0A \<or> c = 0x0B \<or> c = 0x0C \<or> c = 0x0D \<or> c = 0x20 \<or> c = 0xA0
      \<or> c = 0x1680 \<or> (0x2000 \<le> c \<and> c \<le> 0x200A) \<or> c = 0x2028 \<or> c = 0x2029
      \<or> c = 0x202F \<or> c = 0x205F \<or> c = 0x3000 \<or> c = 0xFEFF)"

definition trim :: "jsstring \<Rightarrow> jsstring" where
  "trim s = rev (dropWhile is_whitespace (rev (dropWhile is_whitespace s)))"

section \<open>The regular expressions of \<open>getFileCategory\<close>\<close>

text \<open>
  Every pattern of the source has the shape \<open>/\.(a1|...|an)$/i\<close>. With the \<open>i\<close> flag
  (and no \<open>u\<close> flag) two code units match when their canonical forms agree; a pattern
  character below 128 is never matched by a code unit from 128 on, so for the ASCII
  patterns of the source canonicalisation is upper-casing of \<open>a\<close>..\<open>z\<close>.
\<close>

definition canonicalize :: "16 word \<Rightarrow> 16 word" where
  "canonicalize c = (if 0x61 \<le> c \<and> c \<le> 0x7A then c - 0x20 else c)"

text \<open>Match a run of literal pattern characters at the front of the input; the rest is returned.\<close>

fun match_chars :: "jsstring \<Rightarrow> jsstring \<Rightarrow> jsstring option" where
  "match_chars [] s = Some s"
| "match_chars (p # ps) [] = None"
| "match_chars (p # ps) (c # cs) =
     (if canonicalize c = canonicalize p then match_chars ps cs else None)"

text \<open>
  The whole pattern tried at one start index: the literal dot, then the alternatives from
  left to right, each followed by the end-of-input assertion \<open>$\<close>.
\<close>

definition match_here :: "jsstring list \<Rightarrow> jsstring \<Rightarrow> bool" where
  "match_here alts s =
     (case match_chars (js ''.'') s of
        None \<Rightarrow> False
      | Some r \<Rightarrow> list_ex (\<lambda>a. match_chars a r = Some []) alts)"

text \<open>
  \<open>name.match(re)\<close> used as a condition: the pattern is tried at every start index from
  the left, the index after the last code unit included; the result is truthy when one
  of them matches.
\<close>

fun regex_match :: "jsstring list \<Rightarrow> jsstring \<Rightarrow> bool" where
  "regex_match alts [] = match_here alts []"
| "regex_match alts (c # cs) = (match_here alts (c # cs) \<or> regex_match alts cs)"

definition text_exts :: "jsstring list" where
  "text_exts = [js ''txt'', js ''md'', js ''pdf'', js ''docx'', js ''pptx'']"

definition image_exts :: "jsstring list" where
  "image_exts = [js ''png'', js ''jpg'', js ''jpeg'', js ''gif'', js ''webp'']"

definition audio_exts :: "jsstring list" where
  "audio_exts = [js ''mp3'', js ''wav'', js ''ogg'']"

definition video_exts :: "jsstring list" where
  "video_exts = [js ''mp4'', js ''webm'', js ''mov'']"

section \<open>Category inference\<close>

definition getFileCategory :: "jsstring \<Rightarrow> jsstring \<Rightarrow> jsstring" where
  "getFileCategory type' name' =
     (if startsWith type' (js ''text/'') \<or> regex_match text_exts name' then js ''text''
      else if startsWith type' (js ''image/'') \<or> regex_match image_exts name' then js ''image''
      else if startsWith type' (js ''audio/'') \<or> regex_match audio_exts name' then js ''audio''
      else if startsWith type' (js ''video/'') \<or> regex_match video_exts name' then js ''video''
      else js ''other'')"

text \<open>
  The words of the specification: a filename ends case-insensitively in \<open>.e\<close> for one of
  the extensions \<open>e\<close> of a list, and a type starts with a prefix.
\<close>

definition lower :: "16 word \<Rightarrow> 16 word" where
  "lower c = (if 0x41 \<le> c \<and> c \<le> 0x5A then c + 0x20 else c)"

definition ends_with_ci :: "jsstring \<Rightarrow> jsstring \<Rightarrow> bool" where
  "ends_with_ci name' e = suffix (map lower e) (map lower name')"

definition has_extension :: "jsstring list \<Rightarrow> jsstring \<Rightarrow> bool" where
  "has_extension exts name' = list_ex (\<lambda>e. ends_with_ci name' (js ''.'' @ e)) exts"


section \<open>Promises\<close>

text \<open>
  The outcome of an awaited operation: it is fulfilled with a value, rejected with an
  error whose \<open>message\<close> is kept, or never settles (nothing in the source sets a
  timeout).
\<close>

datatype 'a promise = Fulfilled 'a | Rejected jsstring | Pending

section \<open>The PDF collaborator\<close>

text \<open>
  What the source uses of a loaded document: \<open>numPages\<close>, \<open>getPage(k)\<close>, and of a page
  \<open>getTextContent()\<close>, whose \<open>items\<close> each carry a string \<open>str\<close>.
\<close>

record item =
  str :: jsstring

record textContent =
  items :: "item list"

record page =
  getTextContent :: "textContent promise"

record pdf =
  numPages :: nat
  getPage :: "nat \<Rightarrow> page promise"

text \<open>
  The loop of \<open>extractTextFromPdf\<close>, from index \<open>i\<close> with the text accumulated so far.
  The second accumulator records the arguments of the \<open>getPage\<close> calls in the order
  they are made. A rejected \<open>await\<close> leaves the loop with that rejection.
\<close>

function extract_loop :: "pdf \<Rightarrow> nat \<Rightarrow> jsstring \<Rightarrow> nat list \<Rightarrow> nat list \<times> jsstring promise" where
  "extract_loop d i text' visited =
     (if i < numPages d then
        (case getPage d (i + 1) of
           Fulfilled pg \<Rightarrow>
             (case getTextContent pg of
                Fulfilled content' \<Rightarrow>
                  extract_loop d (i + 1)
                    (text' @ join (js '' '') (map str (items content')) @ [LF])
                    (visited @ [i + 1])
              | Rejected m \<Rightarrow> (visited @ [i + 1], Rejected m)
              | Pending \<Rightarrow> (visited @ [i + 1], Pending))
         | Rejected m \<Rightarrow> (visited @ [i + 1], Rejected m)
         | Pending \<Rightarrow> (visited @ [i + 1], Pending))
      else (visited, Fulfilled text'))"
  by pat_completeness auto
termination
  by (relation "measure (\<lambda>(d, i, text', visited). numPages d - i)") auto

declare extract_loop.simps [simp del]

section \<open>Files\<close>

text \<open>The browser's \<open>File\<close> object, as far as the source reads it.\<close>

record jsfile =
  file_name :: jsstring
  file_type :: jsstring
  file_size :: nat

text \<open>
  The \<open>content\<close> of an ingested file is the extracted text of a PDF or the
  \<open>ArrayBuffer\<close> as read; \<open>buildContext\<close> also guards against a missing one
  (\<open>null\<close> or \<open>undefined\<close>).
\<close>

datatype content = Str jsstring | ArrayBuffer "8 word list" | Nullish

record ingested =
  id' :: int
  name :: jsstring
  type' :: jsstring
  size' :: nat
  content :: content
  category :: jsstring

section \<open>JSON values\<close>

text \<open>
  The result of \<open>res.json()\<close>. A number is kept as the bit pattern of its IEEE 754
  double; an object as the list of its own properties.
\<close>

datatype json =
    JNull
  | JBool bool
  | JNum "64 word"
  | JStr jsstring
  | JArr "json list"
  | JObj "(jsstring \<times> json) list"

text \<open>
  \<open>data.answer\<close>: reading a property of \<open>null\<close> throws a TypeError (\<open>None\<close> here);
  otherwise the result is the own property of an object, and \<open>undefined\<close> for a missing
  one and for every primitive and array.
\<close>

datatype jsvalue = Undefined | Value json

fun get_answer :: "json \<Rightarrow> jsvalue option" where
  "get_answer JNull = None"
| "get_answer (JObj kvs) =
     (case map_of kvs (js ''answer'') of None \<Rightarrow> Some Undefined | Some v \<Rightarrow> Some (Value v))"
| "get_answer j = Some Undefined"

text \<open>A double is zero when all bits but the sign are 0, and NaN when the exponent is
  all ones and the fraction is not 0.\<close>

definition is_zero_or_nan :: "64 word \<Rightarrow> bool" where
  "is_zero_or_nan w =
     (let m = and w 0x7FFFFFFFFFFFFFFF in m = 0 \<or> 0x7FF0000000000000 < m)"

fun truthy :: "jsvalue \<Rightarrow> bool" where
  "truthy Undefined = False"
| "truthy (Value JNull) = False"
| "truthy (Value (JBool b)) = b"
| "truthy (Value (JNum w)) = (\<not> is_zero_or_nan w)"
| "truthy (Value (JStr s)) = (s \<noteq> [])"
| "truthy (Value (JArr xs)) = True"
| "truthy (Value (JObj kvs)) = True"

text \<open>\<open>a || b\<close> with a string on the right.\<close>

definition or_else :: "jsvalue \<Rightarrow> jsstring \<Rightarrow> json" where
  "or_else a b = (case a of Undefined \<Rightarrow> JStr b | Value v \<Rightarrow> if truthy (Value v) then v else JStr b)"

section \<open>The platform\<close>

text \<open>
  Everything the component calls and does not define: the clock, the file reader
  (\<open>None\<close> is its \<open>onerror\<close>), the PDF loader, \<open>fetch\<close>, and the message of the
  TypeError the engine throws when a property of \<open>null\<close> is read.
\<close>

record response' =
  ok :: bool
  status :: nat
  json_body :: "json promise"

record request =
  url :: jsstring
  method' :: jsstring
  headers :: "(jsstring \<times> jsstring) list"
  body :: json

record platform =
  now :: int
  readAsArrayBuffer :: "jsfile \<Rightarrow> 8 word list option"
  getDocument :: "8 word list \<Rightarrow> pdf promise"
  fetch :: "request \<Rightarrow> response' promise"
  null_property_message :: jsstring

section \<open>The component\<close>

record ui_state =
  files :: "ingested list"
  query :: jsstring
  response :: json
  loading :: bool
  error :: jsstring

definition initial :: ui_state where
  "initial = \<lparr>files = [], query = [], response = JStr [], loading = False, error = []\<rparr>"

definition BACKEND_URL :: jsstring where
  "BACKEND_URL = js ''http://localhost:5000/api/query''"

definition extractTextFromPdf :: "platform \<Rightarrow> 8 word list \<Rightarrow> nat list \<times> jsstring promise" where
  "extractTextFromPdf env arrayBuffer =
     (case getDocument env arrayBuffer of
        Fulfilled d \<Rightarrow> extract_loop d 0 [] []
      | Rejected m \<Rightarrow> ([], Rejected m)
      | Pending \<Rightarrow> ([], Pending))"

text \<open>
  \<open>processFile\<close> settles its promise from the reader's callbacks. In \<open>onload\<close> a
  rejection of \<open>extractTextFromPdf\<close> is thrown inside the asynchronous callback, where
  neither \<open>resolve\<close> nor \<open>reject\<close> is reached: the promise then never settles.
\<close>

definition processFile :: "platform \<Rightarrow> jsfile \<Rightarrow> ingested promise" where
  "processFile env f =
     (case readAsArrayBuffer env f of
        None \<Rightarrow> Rejected (js ''File read error'')
      | Some buf \<Rightarrow>
          if file_type f = js ''application/pdf'' then
            (case snd (extractTextFromPdf env buf) of
               Fulfilled text' \<Rightarrow>
                 Fulfilled \<lparr>id' = now env, name = file_name f, type' = file_type f,
                            size' = file_size f, content = Str text',
                            category = getFileCategory (file_type f) (file_name f)\<rparr>
             | Rejected m \<Rightarrow> Pending
             | Pending \<Rightarrow> Pending)
          else
            Fulfilled \<lparr>id' = now env, name = file_name f, type' = file_type f,
                       size' = file_size f, content = ArrayBuffer buf,
                       category = getFileCategory (file_type f) (file_name f)\<rparr>)"

text \<open>
  \<open>handleFileUpload\<close>: \<open>e.target.files\<close> may be missing or empty; otherwise its first
  file is processed and, once that is fulfilled, replaces the whole collection.
\<close>

definition handleFileUpload :: "platform \<Rightarrow> jsfile list option \<Rightarrow> ui_state \<Rightarrow> ui_state" where
  "handleFileUpload env selected st =
     (case selected of
        None \<Rightarrow> st
      | Some [] \<Rightarrow> st
      | Some (f # fs) \<Rightarrow>
          (case processFile env f of
             Fulfilled processed \<Rightarrow> st\<lparr>files := [processed]\<rparr>
           | Rejected m \<Rightarrow> st
           | Pending \<Rightarrow> st))"

definition removeFile :: "int \<Rightarrow> ui_state \<Rightarrow> ui_state" where
  "removeFile i st = st\<lparr>files := filter (\<lambda>f. id' f \<noteq> i) (files st)\<rparr>"

text \<open>
  The optional chain \<open>f.content?.toString().slice(0, 1000)\<close> inside the template
  literal: a missing content short-circuits the chain to \<open>undefined\<close>, which the
  template prints as such.
\<close>

fun toString :: "content \<Rightarrow> jsstring" where
  "toString (Str s) = s"
| "toString (ArrayBuffer b) = js ''[object ArrayBuffer]''"
| "toString Nullish = js ''undefined''"

definition content_segment :: "content \<Rightarrow> jsstring" where
  "content_segment c =
     (case c of Nullish \<Rightarrow> js ''undefined'' | _ \<Rightarrow> slice 0 1000 (toString c))"

definition file_block :: "ingested \<Rightarrow> jsstring" where
  "file_block f =
     js ''File: '' @ name f @ [LF] @ js ''Content: '' @ content_segment (content f) @ js ''...''"

definition buildContext :: "ingested list \<Rightarrow> jsstring" where
  "buildContext fs = join [LF, LF] (map file_block fs)"

definition prompt :: "ingested list \<Rightarrow> jsstring \<Rightarrow> jsstring" where
  "prompt fs q = js ''Context:'' @ [LF] @ buildContext fs @ [LF, LF] @ js ''Query:'' @ [LF] @ q"

definition query_request :: "ui_state \<Rightarrow> request" where
  "query_request st =
     \<lparr>url = BACKEND_URL, method' = js ''POST'',
      headers = [(js ''Content-Type'', js ''application/json'')],
      body = JObj [(js ''prompt'', JStr (prompt (files st) (query st)))]\<rparr>"

text \<open>
  \<open>handleQuery\<close>, run until nothing more happens: the state it leaves and the requests it
  sent. \<open>caught\<close> is the \<open>catch\<close> block followed by \<open>finally\<close>.
\<close>

definition caught :: "ui_state \<Rightarrow> jsstring \<Rightarrow> ui_state" where
  "caught st m = st\<lparr>error := js ''Backend error: '' @ m, loading := False\<rparr>"

definition handleQuery :: "platform \<Rightarrow> ui_state \<Rightarrow> ui_state \<times> request list" where
  "handleQuery env st =
     (if trim (query st) = [] then (st\<lparr>error := js ''Please enter a question''\<rparr>, [])
      else if length (files st) = 0 then (st\<lparr>error := js ''Please upload a file''\<rparr>, [])
      else
        let st1 = st\<lparr>error := [], loading := True\<rparr>;
            req = query_request st
        in (case fetch env req of
              Pending \<Rightarrow> (st1, [req])
            | Rejected m \<Rightarrow> (caught st1 m, [req])
            | Fulfilled res \<Rightarrow>
                (case json_body res of
                   Pending \<Rightarrow> (st1, [req])
                 | Rejected m \<Rightarrow> (caught st1 m, [req])
                 | Fulfilled data \<Rightarrow>
                     (case get_answer data of
                        None \<Rightarrow> (caught st1 (null_property_message env), [req])
                      | Some a \<Rightarrow>
                          (st1\<lparr>response := or_else a (js ''No response found''),
                               loading := False\<rparr>, [req])))))"

text \<open>
  The user's actions, each with the platform's behaviour at that moment. A handler is
  run to its end before the next action. An upload sets the collection without reading
  it and a removal filters the collection it finds, so the length of the collection
  does not depend on the order in which pending uploads complete.
\<close>

datatype event =
    FileUpload "jsfile list option"
  | RemoveFile int
  | SetQuery jsstring
  | Query

fun step :: "ui_state \<Rightarrow> platform \<times> event \<Rightarrow> ui_state" where
  "step st (env, FileUpload selected) = handleFileUpload env selected st"
| "step st (env, RemoveFile i) = removeFile i st"
| "step st (env, SetQuery q) = st\<lparr>query := q\<rparr>"
| "step st (env, Query) = fst (handleQuery env st)"

definition run :: "(platform \<times> event) list \<Rightarrow> ui_state" where
  "run evs = foldl step initial evs"

section \<open>Example inputs\<close>

text \<open>A document of one page whose only text item is \<open>a\<close>, uploaded as \<open>a.pdf\<close>.\<close>

definition one_page_getPage :: "nat \<Rightarrow> page promise" where
  "one_page_getPage k =
     Fulfilled \<lparr>getTextContent = Fulfilled \<lparr>items = [\<lparr>str = js ''a''\<rparr>]\<rparr>\<rparr>"

definition one_page_pdf :: pdf where
  "one_page_pdf = \<lparr>numPages = 1, getPage = one_page_getPage\<rparr>"

definition read_empty :: "jsfile \<Rightarrow> 8 word list option" where
  "read_empty f = Some []"

definition load_one_page :: "8 word list \<Rightarrow> pdf promise" where
  "load_one_page b = Fulfilled one_page_pdf"

definition never_answers :: "request \<Rightarrow> response' promise" where
  "never_answers r = Pending"

definition one_page_platform :: platform where
  "one_page_platform =
     \<lparr>now = 0, readAsArrayBuffer = read_empty, getDocument = load_one_page,
      fetch = never_answers, null_property_message = []\<rparr>"

definition a_pdf :: jsfile where
  "a_pdf = \<lparr>file_name = js ''a.pdf'', file_type = js ''application/pdf'', file_size = 0\<rparr>"

text \<open>
  A state ready for a query: one ingested text file (its content is the buffer as read),
  a question, and an answer left from an earlier query.
\<close>

definition hi_file :: ingested where
  "hi_file =
     \<lparr>id' = 1, name = js ''hi.txt'', type' = js ''text/plain'', size' = 2,
      content = ArrayBuffer [0x68, 0x69], category = js ''text''\<rparr>"

definition ready :: ui_state where
  "ready =
     \<lparr>files = [hi_file], query = js ''what?'', response = JStr (js ''old''),
      loading = False, error = []\<rparr>"

text \<open>A backend that gives every request the same outcome, and responses by status code.\<close>

definition reply :: "response' promise \<Rightarrow> request \<Rightarrow> response' promise" where
  "reply r req = r"

definition platform_replying :: "response' promise \<Rightarrow> platform" where
  "platform_replying r =
     \<lparr>now = 0, readAsArrayBuffer = read_empty, getDocument = load_one_page,
      fetch = reply r, null_property_message = js ''Cannot read properties of null''\<rparr>"

definition respond :: "nat \<Rightarrow> json promise \<Rightarrow> response'" where
  "respond code b = \<lparr>ok = (200 \<le> code \<and> code < 300), status = code, json_body = b\<rparr>"

text \<open>
  A plain text file \<open>hello.txt\<close> whose bytes are those of \<open>hello world\<close>, on a platform
  that reads them.
\<close>

definition hello_bytes :: "8 word list" where
  "hello_bytes = map of_char ''hello world''"

definition hello_txt :: jsfile where
  "hello_txt = \<lparr>file_name = js ''hello.txt'', file_type = js ''text/plain'', file_size = 11\<rparr>"

definition read_hello :: "jsfile \<Rightarrow> 8 word list option" where
  "read_hello f = Some hello_bytes"

definition hello_platform :: platform where
  "hello_platform =
     \<lparr>now = 1, readAsArrayBuffer = read_hello, getDocument = load_one_page,
      fetch = never_answers, null_property_message = []\<rparr>"

section \<open>Strings: the library functions against their usual readings\<close>

lemma startsWith_prefix: "startsWith s p \<longleftrightarrow> prefix p s"
  unfolding startsWith_def prefix_def
  by (metis append_eq_conv_conj)

lemma slice_take: "0 \<le> n \<Longrightarrow> slice 0 n s = take (nat n) s"
  by (auto simp: slice_def Let_def min_def)

lemma dropWhile_all: "(\<forall>x\<in>set (dropWhile P s). P x) \<longleftrightarrow> (\<forall>x\<in>set s. P x)"
  by (induction s) auto

lemma trim_empty_iff: "trim s = [] \<longleftrightarrow> (\<forall>c\<in>set s. is_whitespace c)"
  by (simp add: trim_def dropWhile_all)

section \<open>The regular expressions match exactly the case-insensitive suffixes\<close>

lemma unat_canonicalize:
  "unat (canonicalize c) = (if 97 \<le> unat c \<and> unat c \<le> 122 then unat c - 32 else unat c)"
proof -
  have "(32::16 word) \<le> c \<Longrightarrow> unat (c - 32) = unat c - 32"
    by (simp add: unat_sub)
  moreover have "(97::16 word) \<le> c \<Longrightarrow> (32::16 word) \<le> c"
    by (simp add: word_le_nat_alt)
  ultimately show ?thesis
    by (simp add: canonicalize_def word_le_nat_alt)
qed

lemma unat_lower:
  "unat (lower c) = (if 65 \<le> unat c \<and> unat c \<le> 90 then unat c + 32 else unat c)"
proof -
  have "c \<le> (90::16 word) \<Longrightarrow> unat (c + 32) = unat c + 32"
    by (simp add: unat_add_lem [THEN iffD1] word_le_nat_alt)
  then show ?thesis
    by (simp add: lower_def word_le_nat_alt)
qed

lemma canonicalize_eq_iff: "canonicalize c = canonicalize p \<longleftrightarrow> lower c = lower p"
proof -
  have "canonicalize c = canonicalize p \<longleftrightarrow> unat (canonicalize c) = unat (canonicalize p)"
    by (simp add: word_unat_eq_iff)
  also have "\<dots> \<longleftrightarrow> unat (lower c) = unat (lower p)"
    unfolding unat_canonicalize unat_lower by (simp only: split: if_splits) arith
  also have "\<dots> \<longleftrightarrow> lower c = lower p"
    by (simp add: word_unat_eq_iff)
  finally show ?thesis .
qed

lemma match_chars_Some:
  "match_chars p s = Some r \<longleftrightarrow> (\<exists>t. s = t @ r \<and> map lower t = map lower p)"
proof (induction p s rule: match_chars.induct)
  case (1 s)
  then show ?case by simp
next
  case (2 p ps)
  then show ?case by simp
next
  case (3 p ps c cs)
  show ?case
  proof (cases "canonicalize c = canonicalize p")
    case True
    then have l: "lower c = lower p" by (simp add: canonicalize_eq_iff)
    show ?thesis
    proof
      assume "match_chars (p # ps) (c # cs) = Some r"
      with True 3 obtain t where "cs = t @ r" "map lower t = map lower ps" by auto
      with l have "c # cs = (c # t) @ r \<and> map lower (c # t) = map lower (p # ps)" by simp
      then show "\<exists>t. c # cs = t @ r \<and> map lower t = map lower (p # ps)" by blast
    next
      assume "\<exists>t. c # cs = t @ r \<and> map lower t = map lower (p # ps)"
      then obtain t where t: "c # cs = t @ r" "map lower t = map lower (p # ps)" by blast
      then obtain t' where "t = c # t'" by (cases t) auto
      with t have "cs = t' @ r" "map lower t' = map lower ps" by auto
      with True 3 show "match_chars (p # ps) (c # cs) = Some r" by auto
    qed
  next
    case False
    then have l: "lower c \<noteq> lower p" by (simp add: canonicalize_eq_iff)
    have "\<not> (\<exists>t. c # cs = t @ r \<and> map lower t = map lower (p # ps))"
    proof
      assume "\<exists>t. c # cs = t @ r \<and> map lower t = map lower (p # ps)"
      then obtain t where t: "c # cs = t @ r" "map lower t = map lower (p # ps)" by blast
      then obtain t' where "t = c # t'" by (cases t) auto
      with t l show False by simp
    qed
    with False show ?thesis by simp
  qed
qed

lemma match_chars_end: "match_chars a r = Some [] \<longleftrightarrow> map lower r = map lower a"
  unfolding match_chars_Some by simp

lemma map_lower_append_split:
  assumes "map lower s = ys @ zs"
  shows "\<exists>t r. s = t @ r \<and> map lower t = ys \<and> map lower r = zs"
proof -
  have "s = take (length ys) s @ drop (length ys) s" by simp
  moreover from assms have "map lower (take (length ys) s) = ys"
    by (simp add: take_map [symmetric])
  moreover from assms have "map lower (drop (length ys) s) = zs"
    by (simp add: drop_map [symmetric])
  ultimately show ?thesis by blast
qed

lemma match_here_iff:
  "match_here alts s \<longleftrightarrow> (\<exists>a\<in>set alts. map lower s = map lower (js ''.'' @ a))"
proof
  assume "match_here alts s"
  then obtain r where r: "match_chars (js ''.'') s = Some r"
    and "list_ex (\<lambda>a. match_chars a r = Some []) alts"
    unfolding match_here_def by (cases "match_chars (js ''.'') s") simp_all
  then obtain a where a: "a \<in> set alts" "match_chars a r = Some []"
    unfolding list_ex_iff by blast
  from r obtain t where "s = t @ r" "map lower t = map lower (js ''.'')"
    unfolding match_chars_Some by blast
  moreover from a have "map lower r = map lower a"
    unfolding match_chars_end by simp
  ultimately have "map lower s = map lower (js ''.'' @ a)" by simp
  with a show "\<exists>a\<in>set alts. map lower s = map lower (js ''.'' @ a)" by blast
next
  assume "\<exists>a\<in>set alts. map lower s = map lower (js ''.'' @ a)"
  then obtain a where a: "a \<in> set alts" and "map lower s = map lower (js ''.'') @ map lower a"
    by auto
  then obtain t r where s: "s = t @ r" and t: "map lower t = map lower (js ''.'')"
    and "map lower r = map lower a"
    using map_lower_append_split by blast
  then have "match_chars a r = Some []" unfolding match_chars_end by simp
  with a have "list_ex (\<lambda>a. match_chars a r = Some []) alts"
    unfolding list_ex_iff by blast
  moreover from s t have "match_chars (js ''.'') s = Some r"
    unfolding match_chars_Some by blast
  ultimately show "match_here alts s" unfolding match_here_def by simp
qed

lemma regex_match_iff_suffix:
  "regex_match alts s \<longleftrightarrow> (\<exists>t. suffix t s \<and> match_here alts t)"
proof (induction s)
  case Nil
  then show ?case by simp
next
  case (Cons c cs)
  then show ?case by (auto simp: suffix_Cons)
qed

lemma suffix_map_lower_iff:
  "suffix ys (map lower xs) \<longleftrightarrow> (\<exists>t. suffix t xs \<and> map lower t = ys)"
proof
  assume "suffix ys (map lower xs)"
  then obtain zs where "map lower xs = zs @ ys" by (auto simp: suffix_def)
  then obtain t r where "xs = t @ r" "map lower r = ys"
    using map_lower_append_split by blast
  then show "\<exists>t. suffix t xs \<and> map lower t = ys" by (auto simp: suffix_def)
next
  assume "\<exists>t. suffix t xs \<and> map lower t = ys"
  then obtain t zs where "xs = zs @ t" "map lower t = ys" by (auto simp: suffix_def)
  then have "map lower xs = map lower zs @ ys" by simp
  then show "suffix ys (map lower xs)" by (simp add: suffix_def)
qed

lemma regex_match_has_extension: "regex_match alts s \<longleftrightarrow> has_extension alts s"
proof -
  have "regex_match alts s \<longleftrightarrow>
        (\<exists>a\<in>set alts. \<exists>t. suffix t s \<and> map lower t = map lower (js ''.'' @ a))"
    unfolding regex_match_iff_suffix match_here_iff by blast
  also have "\<dots> \<longleftrightarrow> (\<exists>a\<in>set alts. suffix (map lower (js ''.'' @ a)) (map lower s))"
    unfolding suffix_map_lower_iff ..
  finally show ?thesis by (simp add: has_extension_def ends_with_ci_def list_ex_iff)
qed

section \<open>Category inference: the claims\<close>

text \<open>
  C1, as the code has it. The category is that of the first test that succeeds, in the
  order text, image, audio, video, where the test of a category is: the declared type
  starts with the category's prefix, or the filename ends case-insensitively in a dot
  and one of the category's extensions. When no test succeeds the category is
  \<open>other\<close>. So a filename suffix of an earlier category wins over the type prefix of
  a later one.
\<close>

theorem getFileCategory_first_match:
  "getFileCategory t n =
     (if prefix (js ''text/'') t \<or> has_extension text_exts n then js ''text''
      else if prefix (js ''image/'') t \<or> has_extension image_exts n then js ''image''
      else if prefix (js ''audio/'') t \<or> has_extension audio_exts n then js ''audio''
      else if prefix (js ''video/'') t \<or> has_extension video_exts n then js ''video''
      else js ''other'')"
  unfolding getFileCategory_def startsWith_prefix regex_match_has_extension ..

theorem getFileCategory_first_match_witness:
  "getFileCategory (js ''application/octet-stream'') (js ''Holiday.JPeG'') = js ''image''"
  using getFileCategory_first_match
    [of "js ''application/octet-stream''" "js ''Holiday.JPeG''"]
  by (simp add: js_def has_extension_def ends_with_ci_def lower_def suffix_to_prefix
      text_exts_def image_exts_def)

text \<open>
  C1 as stated fails: a type that starts with \<open>image/\<close> does not give the category
  \<open>image\<close> when the filename ends in \<open>.txt\<close>; the suffix is not only a fallback.
\<close>

theorem getFileCategory_type_not_first:
  "prefix (js ''image/'') (js ''image/png'')
   \<and> getFileCategory (js ''image/png'') (js ''notes.txt'') = js ''text''
   \<and> getFileCategory (js ''image/png'') (js ''notes.txt'') \<noteq> js ''image''"
  by (simp add: getFileCategory_def startsWith_def js_def text_exts_def match_here_def
      canonicalize_def)

section \<open>PDF extraction\<close>

lemma extract_loop_all_pages:
  assumes "\<forall>k. i < k \<and> k \<le> numPages d \<longrightarrow>
             getPage d k = Fulfilled (pg k) \<and> getTextContent (pg k) = Fulfilled (tc k)"
  shows "extract_loop d i t vs =
           (vs @ [Suc i..<Suc (numPages d)],
            Fulfilled (t @ concat (map (\<lambda>k. join (js '' '') (map str (items (tc k))) @ [LF])
                                    [Suc i..<Suc (numPages d)])))"
  using assms
proof (induction "numPages d - i" arbitrary: i t vs)
  case 0
  then have "\<not> i < numPages d" by simp
  then show ?case by (simp add: extract_loop.simps)
next
  case (Suc n)
  then have lt: "i < numPages d" by simp
  with Suc.prems have pg: "getPage d (Suc i) = Fulfilled (pg (Suc i))"
    and tc: "getTextContent (pg (Suc i)) = Fulfilled (tc (Suc i))" by simp_all
  from Suc.hyps have n: "n = numPages d - Suc i" by simp
  from Suc.prems have rest: "\<forall>k. Suc i < k \<and> k \<le> numPages d \<longrightarrow>
      getPage d k = Fulfilled (pg k) \<and> getTextContent (pg k) = Fulfilled (tc k)" by simp
  from lt have upt: "[Suc i..<Suc (numPages d)] = Suc i # [Suc (Suc i)..<Suc (numPages d)]"
    by (simp add: upt_conv_Cons)
  have "extract_loop d i t vs =
        extract_loop d (Suc i) (t @ join (js '' '') (map str (items (tc (Suc i)))) @ [LF])
          (vs @ [Suc i])"
    using lt pg tc by (subst extract_loop.simps) simp
  also note Suc.hyps(1) [OF n rest]
  finally show ?case unfolding upt by simp
qed

text \<open>
  C2, as the code has it. For a file whose declared type is exactly
  \<open>application/pdf\<close>, when the file is read, the document loads and every page from 1
  to \<open>numPages\<close> delivers its text content, \<open>processFile\<close> is fulfilled with the
  content: for each page from 1 to the last, in this order, the page's items joined
  with single spaces, followed by a newline. Every page's text ends with a newline,
  the last one too. The pages requested are 1, 2, ..., \<open>numPages\<close>, each once.
\<close>

theorem processFile_pdf_content:
  assumes "file_type f = js ''application/pdf''"
    and "readAsArrayBuffer env f = Some buf"
    and "getDocument env buf = Fulfilled d"
    and "\<forall>k. 1 \<le> k \<and> k \<le> numPages d \<longrightarrow>
           getPage d k = Fulfilled (pg k) \<and> getTextContent (pg k) = Fulfilled (tc k)"
  shows "processFile env f =
           Fulfilled \<lparr>id' = now env, name = file_name f, type' = file_type f,
             size' = file_size f,
             content = Str (concat (map (\<lambda>k. join (js '' '') (map str (items (tc k))) @ [LF])
                                        [1..<Suc (numPages d)])),
             category = getFileCategory (file_type f) (file_name f)\<rparr>
         \<and> fst (extractTextFromPdf env buf) = [1..<Suc (numPages d)]"
proof -
  from assms(4) have "\<forall>k. 0 < k \<and> k \<le> numPages d \<longrightarrow>
      getPage d k = Fulfilled (pg k) \<and> getTextContent (pg k) = Fulfilled (tc k)"
    by (simp add: Suc_le_eq)
  then have "extract_loop d 0 [] [] =
      ([1..<Suc (numPages d)],
       Fulfilled (concat (map (\<lambda>k. join (js '' '') (map str (items (tc k))) @ [LF])
                            [1..<Suc (numPages d)])))"
    using extract_loop_all_pages [of 0 d pg tc "[]" "[]"] by simp
  with assms(3) have "extractTextFromPdf env buf =
      ([1..<Suc (numPages d)],
       Fulfilled (concat (map (\<lambda>k. join (js '' '') (map str (items (tc k))) @ [LF])
                            [1..<Suc (numPages d)])))"
    by (simp add: extractTextFromPdf_def)
  with assms(1,2) show ?thesis by (simp add: processFile_def)
qed

lemma one_page_extract:
  "extractTextFromPdf one_page_platform [] = ([1], Fulfilled (js ''a'' @ [LF]))"
  by (simp add: extractTextFromPdf_def one_page_platform_def load_one_page_def
      one_page_pdf_def one_page_getPage_def extract_loop.simps)

theorem processFile_pdf_content_witness:
  "processFile one_page_platform a_pdf =
     Fulfilled \<lparr>id' = 0, name = js ''a.pdf'', type' = js ''application/pdf'', size' = 0,
       content = Str (js ''a'' @ [LF]), category = js ''text''\<rparr>
   \<and> fst (extractTextFromPdf one_page_platform []) = [1]"
proof -
  have 1: "file_type a_pdf = js ''application/pdf''" by (simp add: a_pdf_def)
  have 2: "readAsArrayBuffer one_page_platform a_pdf = Some []"
    by (simp add: one_page_platform_def read_empty_def)
  have 3: "getDocument one_page_platform [] = Fulfilled one_page_pdf"
    by (simp add: one_page_platform_def load_one_page_def)
  have 4: "\<forall>k. 1 \<le> k \<and> k \<le> numPages one_page_pdf \<longrightarrow>
      getPage one_page_pdf k
        = Fulfilled ((\<lambda>k. \<lparr>getTextContent = Fulfilled \<lparr>items = [\<lparr>str = js ''a''\<rparr>]\<rparr>\<rparr>) k)
      \<and> getTextContent ((\<lambda>k. \<lparr>getTextContent = Fulfilled \<lparr>items = [\<lparr>str = js ''a''\<rparr>]\<rparr>\<rparr>) k)
        = Fulfilled ((\<lambda>k. \<lparr>items = [\<lparr>str = js ''a''\<rparr>]\<rparr>) k)"
    by (simp add: one_page_pdf_def one_page_getPage_def)
  have cat: "getFileCategory (js ''application/pdf'') (js ''a.pdf'') = js ''text''"
    by (simp add: getFileCategory_def startsWith_def js_def text_exts_def match_here_def
        canonicalize_def)
  from processFile_pdf_content [OF 1 2 3 4] cat show ?thesis
    by (simp add: a_pdf_def one_page_platform_def one_page_pdf_def)
qed

lemma one_page_processFile:
  "processFile one_page_platform a_pdf =
     Fulfilled \<lparr>id' = 0, name = js ''a.pdf'', type' = js ''application/pdf'', size' = 0,
       content = Str (js ''a'' @ [LF]), category = js ''text''\<rparr>"
proof -
  have cat: "getFileCategory (js ''application/pdf'') (file_name a_pdf) = js ''text''"
    by (simp add: a_pdf_def getFileCategory_def startsWith_def js_def text_exts_def
        match_here_def canonicalize_def)
  have rd: "readAsArrayBuffer one_page_platform a_pdf = Some []"
    by (simp add: one_page_platform_def read_empty_def)
  have ex: "snd (extractTextFromPdf one_page_platform []) = Fulfilled (js ''a'' @ [LF])"
    by (simp add: one_page_extract)
  have ty: "file_type a_pdf = js ''application/pdf''" by (simp add: a_pdf_def)
  have "processFile one_page_platform a_pdf =
       Fulfilled \<lparr>id' = now one_page_platform, name = file_name a_pdf,
         type' = file_type a_pdf, size' = file_size a_pdf,
         content = Str (js ''a'' @ [LF]), category = js ''text''\<rparr>"
    by (simp add: processFile_def rd ex ty cat)
  then show ?thesis by (simp add: a_pdf_def one_page_platform_def)
qed

text \<open>
  C2 as stated fails: the pages are not joined with newlines. For the one-page document
  the content is \<open>a\<close> followed by a newline, and joining the page texts with newlines
  gives \<open>a\<close>.
\<close>

theorem processFile_pdf_trailing_newline:
  "file_type a_pdf = js ''application/pdf''
   \<and> processFile one_page_platform a_pdf =
       Fulfilled \<lparr>id' = 0, name = js ''a.pdf'', type' = js ''application/pdf'', size' = 0,
         content = Str (js ''a'' @ [LF]), category = js ''text''\<rparr>
   \<and> join [LF] [join (js '' '') [js ''a'']] = js ''a''
   \<and> js ''a'' @ [LF] \<noteq> join [LF] [join (js '' '') [js ''a'']]"
  by (simp add: one_page_processFile) (simp add: a_pdf_def)

section \<open>Prompt composition\<close>

lemma content_segment_cases:
  "content_segment (Str s) = take 1000 s"
  "content_segment (ArrayBuffer b) = js ''[object ArrayBuffer]''"
  "content_segment Nullish = js ''undefined''"
  by (simp_all add: content_segment_def slice_take js_def)

lemma file_block_ignores_bytes:
  "file_block (f\<lparr>content := ArrayBuffer b\<rparr>) = file_block (f\<lparr>content := ArrayBuffer b'\<rparr>)"
  by (simp add: file_block_def content_segment_cases)

lemma hello_processFile:
  "processFile hello_platform hello_txt =
     Fulfilled \<lparr>id' = 1, name = js ''hello.txt'', type' = js ''text/plain'', size' = 11,
       content = ArrayBuffer hello_bytes, category = js ''text''\<rparr>"
proof -
  have cat: "getFileCategory (file_type hello_txt) (file_name hello_txt) = js ''text''"
    by (simp add: hello_txt_def getFileCategory_def startsWith_def js_def)
  have rd: "readAsArrayBuffer hello_platform hello_txt = Some hello_bytes"
    by (simp add: hello_platform_def read_hello_def)
  have ty: "file_type hello_txt \<noteq> js ''application/pdf''"
    by (simp add: hello_txt_def js_def)
  have "processFile hello_platform hello_txt =
       Fulfilled \<lparr>id' = now hello_platform, name = file_name hello_txt,
         type' = file_type hello_txt, size' = file_size hello_txt,
         content = ArrayBuffer hello_bytes, category = js ''text''\<rparr>"
    by (simp add: processFile_def rd ty cat)
  then show ?thesis by (simp add: hello_txt_def hello_platform_def)
qed

lemma hello_uploaded:
  "run [(hello_platform, FileUpload (Some [hello_txt])),
        (hello_platform, SetQuery (js ''what does the file say?''))]
   = \<lparr>files = [\<lparr>id' = 1, name = js ''hello.txt'', type' = js ''text/plain'', size' = 11,
               content = ArrayBuffer hello_bytes, category = js ''text''\<rparr>],
      query = js ''what does the file say?'', response = JStr [], loading = False,
      error = []\<rparr>"
  by (simp add: run_def handleFileUpload_def hello_processFile initial_def)

text \<open>
  C3. The prompt is to carry, for each file, at most the first 1000 characters of the
  file's content. For a file that is not a PDF the code keeps the buffer as read, and
  the string made of a buffer is \<open>[object ArrayBuffer]\<close> whatever its bytes. After the
  upload of \<open>hello.txt\<close>, whose bytes are those of \<open>hello world\<close>, the question
  \<open>what does the file say?\<close> sends one request, and the content line of its prompt is
  \<open>Content: [object ArrayBuffer]...\<close>, not \<open>Content: hello world...\<close>.
\<close>

theorem prompt_loses_text_file_content:
  "map body (snd (handleQuery hello_platform
      (run [(hello_platform, FileUpload (Some [hello_txt])),
            (hello_platform, SetQuery (js ''what does the file say?''))])))
     = [JObj [(js ''prompt'', JStr
          (js ''Context:'' @ [LF] @ js ''File: hello.txt'' @ [LF]
           @ js ''Content: [object ArrayBuffer]...'' @ [LF, LF]
           @ js ''Query:'' @ [LF] @ js ''what does the file say?''))]]
   \<and> js ''Context:'' @ [LF] @ js ''File: hello.txt'' @ [LF]
       @ js ''Content: [object ArrayBuffer]...'' @ [LF, LF]
       @ js ''Query:'' @ [LF] @ js ''what does the file say?''
     \<noteq> js ''Context:'' @ [LF] @ js ''File: hello.txt'' @ [LF]
       @ js ''Content: hello world...'' @ [LF, LF]
       @ js ''Query:'' @ [LF] @ js ''what does the file say?''"
proof -
  have q: "trim (js ''what does the file say?'') \<noteq> []"
    by (simp add: trim_def js_def is_whitespace_def)
  have "snd (handleQuery hello_platform
      (run [(hello_platform, FileUpload (Some [hello_txt])),
            (hello_platform, SetQuery (js ''what does the file say?''))]))
     = [query_request
      (run [(hello_platform, FileUpload (Some [hello_txt])),
            (hello_platform, SetQuery (js ''what does the file say?''))])]"
    unfolding hello_uploaded using q
    by (simp add: handleQuery_def Let_def hello_platform_def never_answers_def)
  then have "map body (snd (handleQuery hello_platform
      (run [(hello_platform, FileUpload (Some [hello_txt])),
            (hello_platform, SetQuery (js ''what does the file say?''))])))
     = [JObj [(js ''prompt'', JStr
          (js ''Context:'' @ [LF] @ js ''File: hello.txt'' @ [LF]
           @ js ''Content: [object ArrayBuffer]...'' @ [LF, LF]
           @ js ''Query:'' @ [LF] @ js ''what does the file say?''))]]"
    unfolding hello_uploaded
    by (simp add: query_request_def prompt_def buildContext_def file_block_def
        content_segment_cases js_def)
  moreover have "js ''Context:'' @ [LF] @ js ''File: hello.txt'' @ [LF]
       @ js ''Content: [object ArrayBuffer]...'' @ [LF, LF]
       @ js ''Query:'' @ [LF] @ js ''what does the file say?''
     \<noteq> js ''Context:'' @ [LF] @ js ''File: hello.txt'' @ [LF]
       @ js ''Content: hello world...'' @ [LF, LF]
       @ js ''Query:'' @ [LF] @ js ''what does the file say?''"
    by (simp add: js_def)
  ultimately show ?thesis by blast
qed

section \<open>Validation before the dispatch\<close>

text \<open>
  C4, as the code has it. A query whose question is empty after trimming sends no
  request and only sets the error to \<open>Please enter a question\<close>. A query whose question
  is not empty after trimming, with no ingested file, sends no request and only sets
  the error to \<open>Please upload a file\<close>.
\<close>

theorem handleQuery_validation:
  "(trim (query st) = [] \<longrightarrow>
      handleQuery env st = (st\<lparr>error := js ''Please enter a question''\<rparr>, []))
   \<and> (trim (query st) \<noteq> [] \<and> files st = [] \<longrightarrow>
      handleQuery env st = (st\<lparr>error := js ''Please upload a file''\<rparr>, []))"
  by (simp add: handleQuery_def)

theorem handleQuery_validation_witness:
  "handleQuery (platform_replying Pending) (ready\<lparr>query := js '' ''\<rparr>)
     = (ready\<lparr>query := js '' '', error := js ''Please enter a question''\<rparr>, [])
   \<and> handleQuery (platform_replying Pending) (ready\<lparr>files := []\<rparr>)
     = (ready\<lparr>files := [], error := js ''Please upload a file''\<rparr>, [])"
proof -
  have 1: "trim (query (ready\<lparr>query := js '' ''\<rparr>)) = []"
    by (simp add: trim_def js_def is_whitespace_def)
  have 2: "trim (query (ready\<lparr>files := []\<rparr>)) \<noteq> [] \<and> files (ready\<lparr>files := []\<rparr>) = []"
    by (simp add: ready_def trim_def js_def is_whitespace_def)
  from handleQuery_validation [of "ready\<lparr>query := js '' ''\<rparr>" "platform_replying Pending"] 1
    handleQuery_validation [of "ready\<lparr>files := []\<rparr>" "platform_replying Pending"] 2
  show ?thesis by simp
qed

text \<open>
  C4 as stated fails: with no ingested file the message is not always the one asking
  for a file. In the initial state (no file, empty question) it is the one asking for a
  question.
\<close>

theorem handleQuery_no_file_other_message:
  "files initial = []
   \<and> error (fst (handleQuery (platform_replying Pending) initial)) = js ''Please enter a question''
   \<and> error (fst (handleQuery (platform_replying Pending) initial)) \<noteq> js ''Please upload a file''"
  by (simp add: handleQuery_def initial_def trim_def js_def)

text \<open>
  C9. When the question is empty after trimming and there is no ingested file, the
  error is \<open>Please enter a question\<close>, not \<open>Please upload a file\<close>, and no request is
  sent.
\<close>

theorem handleQuery_question_checked_first:
  assumes "trim (query st) = []" and "files st = []"
  shows "error (fst (handleQuery env st)) = js ''Please enter a question''
         \<and> error (fst (handleQuery env st)) \<noteq> js ''Please upload a file''
         \<and> snd (handleQuery env st) = []"
  using assms by (simp add: handleQuery_def js_def)

theorem handleQuery_question_checked_first_witness:
  "error (fst (handleQuery (platform_replying Pending) (initial\<lparr>query := [0x20, LF, 0x09]\<rparr>)))
     = js ''Please enter a question''
   \<and> snd (handleQuery (platform_replying Pending) (initial\<lparr>query := [0x20, LF, 0x09]\<rparr>)) = []"
proof -
  have 1: "trim (query (initial\<lparr>query := [0x20, LF, 0x09]\<rparr>)) = []"
    by (simp add: trim_def is_whitespace_def LF_def)
  have 2: "files (initial\<lparr>query := [0x20, LF, 0x09]\<rparr>) = []"
    by (simp add: initial_def)
  from handleQuery_question_checked_first [OF 1 2, of "platform_replying Pending"]
  show ?thesis by simp
qed

section \<open>The dispatch and its outcomes\<close>

lemma ready_passes: "trim (query ready) \<noteq> [] \<and> files ready \<noteq> []"
  by (simp add: ready_def trim_def js_def is_whitespace_def)

text \<open>
  C5. When the query passes the two checks and the dispatch fails with message \<open>m\<close>,
  because \<open>fetch\<close> rejects or because reading the body as JSON rejects, the error
  becomes \<open>Backend error: \<close> followed by \<open>m\<close>, the response keeps the value it had, the
  loading flag is cleared, and the one request of the dispatch is the only one sent.
\<close>

theorem handleQuery_dispatch_failure:
  assumes "trim (query st) \<noteq> []" and "files st \<noteq> []"
    and "fetch env (query_request st) = Rejected m
         \<or> (\<exists>res. fetch env (query_request st) = Fulfilled res \<and> json_body res = Rejected m)"
  shows "error (fst (handleQuery env st)) = js ''Backend error: '' @ m
         \<and> response (fst (handleQuery env st)) = response st
         \<and> loading (fst (handleQuery env st)) = False
         \<and> files (fst (handleQuery env st)) = files st
         \<and> snd (handleQuery env st) = [query_request st]"
  using assms by (auto simp: handleQuery_def Let_def caught_def)

theorem handleQuery_dispatch_failure_witness:
  "error (fst (handleQuery (platform_replying (Rejected (js ''timeout''))) ready))
     = js ''Backend error: timeout''
   \<and> response (fst (handleQuery (platform_replying (Rejected (js ''timeout''))) ready))
     = JStr (js ''old'')
   \<and> error (fst (handleQuery
        (platform_replying (Fulfilled (respond 200 (Rejected (js ''Unexpected token''))))) ready))
     = js ''Backend error: Unexpected token''
   \<and> length (snd (handleQuery (platform_replying (Rejected (js ''timeout''))) ready)) = 1"
proof -
  have 1: "fetch (platform_replying (Rejected (js ''timeout''))) (query_request ready)
             = Rejected (js ''timeout'')
           \<or> (\<exists>res. fetch (platform_replying (Rejected (js ''timeout''))) (query_request ready)
                 = Fulfilled res \<and> json_body res = Rejected (js ''timeout''))"
    by (simp add: platform_replying_def reply_def)
  have 2: "fetch (platform_replying (Fulfilled (respond 200 (Rejected (js ''Unexpected token'')))))
               (query_request ready) = Rejected (js ''Unexpected token'')
           \<or> (\<exists>res. fetch (platform_replying
                   (Fulfilled (respond 200 (Rejected (js ''Unexpected token'')))))
                   (query_request ready) = Fulfilled res
                 \<and> json_body res = Rejected (js ''Unexpected token''))"
    by (simp add: platform_replying_def reply_def respond_def)
  from ready_passes have q: "trim (query ready) \<noteq> []" and f: "files ready \<noteq> []"
    by simp_all
  from handleQuery_dispatch_failure [OF q f 1] handleQuery_dispatch_failure [OF q f 2]
  show ?thesis by (simp add: ready_def js_def)
qed

lemma handleQuery_dispatches:
  assumes "trim (query st) \<noteq> []" and "files st \<noteq> []"
  shows "snd (handleQuery env st) = [query_request st]"
  using assms
  by (simp add: handleQuery_def Let_def split: promise.splits option.splits)

lemma handleQuery_same_body:
  assumes "fetch env (query_request st) = Fulfilled res"
    and "fetch env' (query_request st) = Fulfilled res'"
    and "json_body res' = json_body res"
    and "null_property_message env' = null_property_message env"
  shows "handleQuery env' st = handleQuery env st"
  using assms by (simp add: handleQuery_def Let_def split: promise.splits option.splits)

text \<open>
  C6, as the code has it. When the query passes the two checks and \<open>fetch\<close> is fulfilled
  with a response that is not OK, the status plays no part: one request is sent and
  the outcome is that of any response with the same body. A body that parses to a
  value with a truthy \<open>answer\<close> shows that answer and clears the error; a body that
  parses to a value other than \<open>null\<close> with no truthy \<open>answer\<close> shows
  \<open>No response found\<close> and clears the error; in both cases loading ends. An error that
  starts with \<open>Backend error:\<close> is set exactly when reading the body rejects, with the
  message of that rejection, or when the body is \<open>null\<close>, with the message of the
  engine; the response then keeps its value. While the body does not settle the error
  stays cleared and loading stays set.
\<close>

theorem handleQuery_non_ok_by_body:
  assumes "trim (query st) \<noteq> []" and "files st \<noteq> []"
    and "fetch env (query_request st) = Fulfilled res"
    and "\<not> ok res"
  shows "snd (handleQuery env st) = [query_request st]
    \<and> (\<forall>env' res'. fetch env' (query_request st) = Fulfilled res'
          \<and> json_body res' = json_body res
          \<and> null_property_message env' = null_property_message env
          \<longrightarrow> handleQuery env' st = handleQuery env st)
    \<and> (\<forall>data v. json_body res = Fulfilled data \<and> get_answer data = Some (Value v)
          \<and> truthy (Value v)
          \<longrightarrow> fst (handleQuery env st) = st\<lparr>error := [], response := v, loading := False\<rparr>)
    \<and> (\<forall>data a. json_body res = Fulfilled data \<and> get_answer data = Some a \<and> \<not> truthy a
          \<longrightarrow> fst (handleQuery env st)
              = st\<lparr>error := [], response := JStr (js ''No response found''), loading := False\<rparr>)
    \<and> (\<forall>m. json_body res = Rejected m
          \<longrightarrow> fst (handleQuery env st)
              = st\<lparr>error := js ''Backend error: '' @ m, loading := False\<rparr>)
    \<and> (json_body res = Fulfilled JNull
          \<longrightarrow> fst (handleQuery env st)
              = st\<lparr>error := js ''Backend error: '' @ null_property_message env,
                    loading := False\<rparr>)
    \<and> (json_body res = Pending
          \<longrightarrow> fst (handleQuery env st) = st\<lparr>error := [], loading := True\<rparr>)
    \<and> (prefix (js ''Backend error:'') (error (fst (handleQuery env st)))
          \<longleftrightarrow> (\<exists>m. json_body res = Rejected m) \<or> json_body res = Fulfilled JNull)"
proof -
  have be: "prefix (js ''Backend error:'') (js ''Backend error: '' @ m)" for m
    by (simp add: js_def)
  have nbe: "\<not> prefix (js ''Backend error:'') []"
    by (simp add: js_def)
  have null: "get_answer data = None \<longleftrightarrow> data = JNull" for data
    by (cases data) (simp_all split: option.splits)
  have 1: "snd (handleQuery env st) = [query_request st]"
    using assms(1,2) by (simp add: handleQuery_dispatches)
  have 2: "\<forall>env' res'. fetch env' (query_request st) = Fulfilled res'
          \<and> json_body res' = json_body res
          \<and> null_property_message env' = null_property_message env
          \<longrightarrow> handleQuery env' st = handleQuery env st"
    using assms(3) by (auto intro: handleQuery_same_body)
  have 3: "\<forall>data v. json_body res = Fulfilled data \<and> get_answer data = Some (Value v)
          \<and> truthy (Value v)
          \<longrightarrow> fst (handleQuery env st) = st\<lparr>error := [], response := v, loading := False\<rparr>"
    using assms(1-3) by (simp add: handleQuery_def Let_def or_else_def)
  have 4: "\<forall>data a. json_body res = Fulfilled data \<and> get_answer data = Some a \<and> \<not> truthy a
          \<longrightarrow> fst (handleQuery env st)
              = st\<lparr>error := [], response := JStr (js ''No response found''), loading := False\<rparr>"
    using assms(1-3) by (auto simp: handleQuery_def Let_def or_else_def split: jsvalue.splits)
  have 5: "\<forall>m. json_body res = Rejected m
          \<longrightarrow> fst (handleQuery env st)
              = st\<lparr>error := js ''Backend error: '' @ m, loading := False\<rparr>"
    using assms(1-3) by (simp add: handleQuery_def Let_def caught_def)
  have 6: "json_body res = Fulfilled JNull
          \<longrightarrow> fst (handleQuery env st)
              = st\<lparr>error := js ''Backend error: '' @ null_property_message env,
                    loading := False\<rparr>"
    using assms(1-3) by (simp add: handleQuery_def Let_def caught_def)
  have 7: "json_body res = Pending
          \<longrightarrow> fst (handleQuery env st) = st\<lparr>error := [], loading := True\<rparr>"
    using assms(1-3) by (simp add: handleQuery_def Let_def)
  have 8: "prefix (js ''Backend error:'') (error (fst (handleQuery env st)))
          \<longleftrightarrow> (\<exists>m. json_body res = Rejected m) \<or> json_body res = Fulfilled JNull"
  proof (cases "json_body res")
    case (Fulfilled data)
    show ?thesis
    proof (cases "get_answer data")
      case None
      with Fulfilled assms(1-3) null [of data] be show ?thesis
        by (simp add: handleQuery_def Let_def caught_def)
    next
      case (Some a)
      with null [of data] have "data \<noteq> JNull" by auto
      with Some Fulfilled assms(1-3) nbe show ?thesis
        by (simp add: handleQuery_def Let_def)
    qed
  next
    case (Rejected m)
    with assms(1-3) be show ?thesis by (simp add: handleQuery_def Let_def caught_def)
  next
    case Pending
    with assms(1-3) nbe show ?thesis by (simp add: handleQuery_def Let_def)
  qed
  from 1 2 3 4 5 6 7 8 show ?thesis by blast
qed

theorem handleQuery_non_ok_by_body_witness:
  "fst (handleQuery
      (platform_replying (Fulfilled (respond 500 (Fulfilled (JObj [(js ''answer'', JStr (js ''x''))])))))
      ready)
     = ready\<lparr>error := [], response := JStr (js ''x''), loading := False\<rparr>
   \<and> fst (handleQuery
      (platform_replying (Fulfilled (respond 500 (Fulfilled (JObj [(js ''detail'', JStr (js ''x''))])))))
      ready)
     = ready\<lparr>error := [], response := JStr (js ''No response found''), loading := False\<rparr>
   \<and> fst (handleQuery
      (platform_replying (Fulfilled (respond 500 (Rejected (js ''Unexpected token''))))) ready)
     = ready\<lparr>error := js ''Backend error: Unexpected token'', loading := False\<rparr>
   \<and> fst (handleQuery (platform_replying (Fulfilled (respond 500 (Fulfilled JNull)))) ready)
     = ready\<lparr>error := js ''Backend error: Cannot read properties of null'', loading := False\<rparr>
   \<and> fst (handleQuery (platform_replying (Fulfilled (respond 500 Pending))) ready)
     = ready\<lparr>error := [], loading := True\<rparr>
   \<and> handleQuery
      (platform_replying (Fulfilled (respond 200 (Fulfilled (JObj [(js ''answer'', JStr (js ''x''))])))))
      ready
     = handleQuery
      (platform_replying (Fulfilled (respond 500 (Fulfilled (JObj [(js ''answer'', JStr (js ''x''))])))))
      ready
   \<and> length (snd (handleQuery (platform_replying (Fulfilled (respond 500 Pending))) ready)) = 1"
proof -
  from ready_passes have q: "trim (query ready) \<noteq> []" and f: "files ready \<noteq> []"
    by simp_all
  have r: "fetch (platform_replying (Fulfilled (respond 500 b))) (query_request ready)
           = Fulfilled (respond 500 b)" for b
    by (simp add: platform_replying_def reply_def)
  have r2: "fetch (platform_replying (Fulfilled (respond 200 b))) (query_request ready)
           = Fulfilled (respond 200 b)" for b
    by (simp add: platform_replying_def reply_def)
  have n: "\<not> ok (respond 500 b)" for b by (simp add: respond_def)
  have j: "json_body (respond c b) = b" for c b by (simp add: respond_def)
  have m: "null_property_message (platform_replying p)
           = js ''Cannot read properties of null''" for p
    by (simp add: platform_replying_def)
  note t = handleQuery_non_ok_by_body [OF q f r n]
  have a1: "get_answer (JObj [(js ''answer'', JStr (js ''x''))]) = Some (Value (JStr (js ''x'')))"
    by simp
  have a2: "truthy (Value (JStr (js ''x'')))" by (simp add: js_def)
  have a3: "get_answer (JObj [(js ''detail'', JStr (js ''x''))]) = Some Undefined"
    by (simp add: js_def)
  from t [of "Fulfilled (JObj [(js ''answer'', JStr (js ''x''))])"] j a1 a2
  have 1: "fst (handleQuery
      (platform_replying (Fulfilled (respond 500 (Fulfilled (JObj [(js ''answer'', JStr (js ''x''))])))))
      ready)
     = ready\<lparr>error := [], response := JStr (js ''x''), loading := False\<rparr>"
    by blast
  from t [of "Fulfilled (JObj [(js ''detail'', JStr (js ''x''))])"] j a3
  have 2: "fst (handleQuery
      (platform_replying (Fulfilled (respond 500 (Fulfilled (JObj [(js ''detail'', JStr (js ''x''))])))))
      ready)
     = ready\<lparr>error := [], response := JStr (js ''No response found''), loading := False\<rparr>"
    by (metis truthy.simps(1))
  from t [of "Rejected (js ''Unexpected token'')"] j
  have 3: "fst (handleQuery
      (platform_replying (Fulfilled (respond 500 (Rejected (js ''Unexpected token''))))) ready)
     = ready\<lparr>error := js ''Backend error: '' @ js ''Unexpected token'', loading := False\<rparr>"
    by blast
  from t [of "Fulfilled JNull"] j m
  have 4: "fst (handleQuery (platform_replying (Fulfilled (respond 500 (Fulfilled JNull)))) ready)
     = ready\<lparr>error := js ''Backend error: '' @ js ''Cannot read properties of null'',
              loading := False\<rparr>"
    by metis
  from t [of Pending] j
  have 5: "fst (handleQuery (platform_replying (Fulfilled (respond 500 Pending))) ready)
     = ready\<lparr>error := [], loading := True\<rparr>"
    and 7: "snd (handleQuery (platform_replying (Fulfilled (respond 500 Pending))) ready)
     = [query_request ready]"
    by blast+
  from t [of "Fulfilled (JObj [(js ''answer'', JStr (js ''x''))])"] r2 j m
  have 6: "handleQuery
      (platform_replying (Fulfilled (respond 200 (Fulfilled (JObj [(js ''answer'', JStr (js ''x''))])))))
      ready
     = handleQuery
      (platform_replying (Fulfilled (respond 500 (Fulfilled (JObj [(js ''answer'', JStr (js ''x''))])))))
      ready"
    by metis
  from 1 2 3 4 5 6 7 show ?thesis by (simp add: js_def)
qed

text \<open>
  C6 as stated fails: a response with status 500 whose body carries an answer is shown
  as the answer, and no error is set.
\<close>

theorem handleQuery_non_ok_answer_shown:
  "\<not> ok (respond 500 (Fulfilled (JObj [(js ''answer'', JStr (js ''x''))])))
   \<and> fst (handleQuery
       (platform_replying (Fulfilled (respond 500 (Fulfilled (JObj [(js ''answer'', JStr (js ''x''))])))))
       ready)
     = ready\<lparr>response := JStr (js ''x''), error := []\<rparr>
   \<and> \<not> prefix (js ''Backend error:'') []"
  using ready_passes
  by (simp add: handleQuery_def Let_def platform_replying_def reply_def respond_def or_else_def)
     (simp add: ready_def js_def)

text \<open>
  C7, as the code has it. When the body parses to a value other than \<open>null\<close> that has
  no \<open>answer\<close> field, the response becomes \<open>No response found\<close> and the error is
  cleared.
\<close>

theorem handleQuery_no_answer_fallback:
  assumes "trim (query st) \<noteq> []" and "files st \<noteq> []"
    and "fetch env (query_request st) = Fulfilled res"
    and "json_body res = Fulfilled data"
    and "data \<noteq> JNull"
    and "\<forall>kvs. data = JObj kvs \<longrightarrow> map_of kvs (js ''answer'') = None"
  shows "response (fst (handleQuery env st)) = JStr (js ''No response found'')
         \<and> error (fst (handleQuery env st)) = []"
proof -
  from assms(5,6) have "get_answer data = Some Undefined"
    by (cases data) simp_all
  with assms(1-4) show ?thesis
    by (simp add: handleQuery_def Let_def or_else_def)
qed

theorem handleQuery_no_answer_fallback_witness:
  "response (fst (handleQuery
      (platform_replying (Fulfilled (respond 200 (Fulfilled (JObj [(js ''reply'', JStr (js ''x''))])))))
      ready))
     = JStr (js ''No response found'')
   \<and> error (fst (handleQuery
      (platform_replying (Fulfilled (respond 200 (Fulfilled (JObj [(js ''reply'', JStr (js ''x''))])))))
      ready)) = []"
proof -
  have 3: "fetch (platform_replying
                (Fulfilled (respond 200 (Fulfilled (JObj [(js ''reply'', JStr (js ''x''))])))))
             (query_request ready)
           = Fulfilled (respond 200 (Fulfilled (JObj [(js ''reply'', JStr (js ''x''))])))"
    by (simp add: platform_replying_def reply_def)
  have 4: "json_body (respond 200 (Fulfilled (JObj [(js ''reply'', JStr (js ''x''))])))
           = Fulfilled (JObj [(js ''reply'', JStr (js ''x''))])"
    by (simp add: respond_def)
  have 5: "JObj [(js ''reply'', JStr (js ''x''))] \<noteq> JNull" by simp
  have 6: "\<forall>kvs. JObj [(js ''reply'', JStr (js ''x''))] = JObj kvs
             \<longrightarrow> map_of kvs (js ''answer'') = None"
    by (simp add: js_def)
  from ready_passes have 1: "trim (query ready) \<noteq> []" and 2: "files ready \<noteq> []" by simp_all
  from handleQuery_no_answer_fallback [OF 1 2 3 4 5 6] show ?thesis .
qed

text \<open>
  C7 as stated fails for the body \<open>null\<close>: it parses, it has no \<open>answer\<close> field, and
  reading the field throws; the error is set and the response keeps its old value.
\<close>

theorem handleQuery_null_body_is_error:
  "json_body (respond 200 (Fulfilled JNull)) = Fulfilled JNull
   \<and> error (fst (handleQuery (platform_replying (Fulfilled (respond 200 (Fulfilled JNull)))) ready))
       = js ''Backend error: Cannot read properties of null''
   \<and> response (fst (handleQuery (platform_replying (Fulfilled (respond 200 (Fulfilled JNull)))) ready))
       = JStr (js ''old'')
   \<and> JStr (js ''old'') \<noteq> JStr (js ''No response found'')"
  using ready_passes
  by (simp add: handleQuery_def Let_def platform_replying_def reply_def respond_def caught_def)
     (simp add: ready_def js_def)

text \<open>
  C10. When the body is an object whose \<open>answer\<close> field is present and falsy (the
  empty string, \<open>null\<close>, \<open>false\<close>, a zero or NaN), the response becomes
  \<open>No response found\<close>, not the value of the field.
\<close>

theorem handleQuery_falsy_answer_fallback:
  assumes "trim (query st) \<noteq> []" and "files st \<noteq> []"
    and "fetch env (query_request st) = Fulfilled res"
    and "json_body res = Fulfilled (JObj kvs)"
    and "map_of kvs (js ''answer'') = Some v"
    and "\<not> truthy (Value v)"
  shows "response (fst (handleQuery env st)) = JStr (js ''No response found'')
         \<and> error (fst (handleQuery env st)) = []"
  using assms by (simp add: handleQuery_def Let_def or_else_def)

theorem handleQuery_falsy_answer_fallback_witness:
  "response (fst (handleQuery
        (platform_replying (Fulfilled (respond 200 (Fulfilled (JObj [(js ''answer'', JStr [])])))))
        ready))
      = JStr (js ''No response found'')
   \<and> response (fst (handleQuery
        (platform_replying (Fulfilled (respond 200 (Fulfilled (JObj [(js ''answer'', JNull)])))))
        ready))
      = JStr (js ''No response found'')
   \<and> response (fst (handleQuery
        (platform_replying (Fulfilled (respond 200 (Fulfilled (JObj [(js ''answer'', JBool False)])))))
        ready))
      = JStr (js ''No response found'')
   \<and> response (fst (handleQuery
        (platform_replying (Fulfilled (respond 200 (Fulfilled (JObj [(js ''answer'', JNum 0)])))))
        ready))
      = JStr (js ''No response found'')"
proof -
  have "response (fst (handleQuery
        (platform_replying (Fulfilled (respond 200 (Fulfilled (JObj [(js ''answer'', v)])))))
        ready))
      = JStr (js ''No response found'')" if "\<not> truthy (Value v)" for v
  proof -
    have 3: "fetch (platform_replying (Fulfilled (respond 200 (Fulfilled (JObj [(js ''answer'', v)])))))
               (query_request ready)
             = Fulfilled (respond 200 (Fulfilled (JObj [(js ''answer'', v)])))"
      by (simp add: platform_replying_def reply_def)
    have 4: "json_body (respond 200 (Fulfilled (JObj [(js ''answer'', v)])))
             = Fulfilled (JObj [(js ''answer'', v)])"
      by (simp add: respond_def)
    have 5: "map_of [(js ''answer'', v)] (js ''answer'') = Some v" by simp
    from ready_passes have 1: "trim (query ready) \<noteq> []" and 2: "files ready \<noteq> []"
      by simp_all
    from handleQuery_falsy_answer_fallback [OF 1 2 3 4 5 that] show ?thesis by simp
  qed
  from this [of "JStr []"] this [of JNull] this [of "JBool False"] this [of "JNum 0"]
  show ?thesis by (simp add: is_zero_or_nan_def)
qed

section \<open>The collection of ingested files\<close>

lemma handleFileUpload_files:
  "files (handleFileUpload env sel st) = files st
   \<or> (\<exists>p. processFile env (hd (the sel)) = Fulfilled p \<and> files (handleFileUpload env sel st) = [p])"
  by (auto simp: handleFileUpload_def split: option.splits list.splits promise.splits)

lemma step_files_le_1:
  assumes "length (files st) \<le> 1"
  shows "length (files (step st ev)) \<le> 1"
proof (cases ev)
  case (Pair env e)
  show ?thesis
  proof (cases e)
    case (FileUpload sel)
    with Pair assms handleFileUpload_files [of env sel st] show ?thesis by auto
  next
    case (RemoveFile i)
    have "length (filter (\<lambda>f. id' f \<noteq> i) (files st)) \<le> length (files st)"
      by (rule length_filter_le)
    with assms have "length (filter (\<lambda>f. id' f \<noteq> i) (files st)) \<le> 1"
      by arith
    with Pair RemoveFile show ?thesis by (simp add: removeFile_def)
  next
    case (SetQuery q)
    with Pair assms show ?thesis by simp
  next
    case Query
    have "files (fst (handleQuery env st)) = files st"
      by (simp add: handleQuery_def Let_def caught_def split: promise.splits option.splits)
    with Pair Query assms show ?thesis by simp
  qed
qed

lemma foldl_step_files_le_1:
  "length (files st) \<le> 1 \<Longrightarrow> length (files (foldl step st evs)) \<le> 1"
proof (induction evs arbitrary: st)
  case Nil
  then show ?case by simp
next
  case (Cons ev evs)
  from Cons.prems have "length (files (step st ev)) \<le> 1" by (rule step_files_le_1)
  then have "length (files (foldl step (step st ev) evs)) \<le> 1" by (rule Cons.IH)
  then show ?case by simp
qed

text \<open>
  C8. The collection is empty at first; a file upload leaves it as it was or replaces
  all of it by the one processed file; removing a file never makes it longer; so after
  every sequence of user actions, whatever the platform does, it holds at most one
  ingested file.
\<close>

theorem files_at_most_one:
  "files initial = []
   \<and> (files (handleFileUpload env sel st) = files st
      \<or> length (files (handleFileUpload env sel st)) = 1)
   \<and> length (files (removeFile i st)) \<le> length (files st)
   \<and> length (files (run evs)) \<le> 1"
proof -
  have "files (handleFileUpload env sel st) = files st
      \<or> length (files (handleFileUpload env sel st)) = 1"
    using handleFileUpload_files [of env sel st] by auto
  moreover have "length (files (removeFile i st)) \<le> length (files st)"
    by (simp add: removeFile_def)
  moreover have "length (files (run evs)) \<le> 1"
    unfolding run_def by (rule foldl_step_files_le_1) (simp add: initial_def)
  ultimately show ?thesis by (simp add: initial_def)
qed

theorem files_at_most_one_witness:
  "files (run [(one_page_platform, FileUpload (Some [a_pdf, a_pdf])),
               (one_page_platform, FileUpload (Some [a_pdf]))])
     = [\<lparr>id' = 0, name = js ''a.pdf'', type' = js ''application/pdf'', size' = 0,
         content = Str (js ''a'' @ [LF]), category = js ''text''\<rparr>]
   \<and> length (files (run [(one_page_platform, FileUpload (Some [a_pdf, a_pdf])),
               (one_page_platform, FileUpload (Some [a_pdf]))])) \<le> 1"
proof -
  from files_at_most_one [of one_page_platform None initial 0
      "[(one_page_platform, FileUpload (Some [a_pdf, a_pdf])),
        (one_page_platform, FileUpload (Some [a_pdf]))]"]
  show ?thesis by (simp add: run_def handleFileUpload_def one_page_processFile)
qed

end
